theory Spec2Isabelle
  imports Complex_Main
begin

section \<open>Data model (src/lib/game/types.ts)\<close>

text \<open>
  JavaScript numbers are modelled exactly: timestamps, the wave index, the score, health and
  damage are \<open>int\<close>; coordinates, sizes and speeds are \<open>rat\<close> (the archetype table
  holds the speed 1.5). Rounding of IEEE doubles is not modelled.
\<close>

record Position =
  pos_x :: rat
  pos_y :: rat

datatype EnemyType = STARKENT | SCROLL | ZKSYN | TAIKO | LINEA | OP | ARB | POLYGON

record EnemyConfig =
  etype :: EnemyType
  cfg_health :: int
  cfg_speed :: rat
  imagePath :: string
  cfg_width :: rat
  cfg_height :: rat
  canShoot :: bool
  shootInterval :: int
  cfg_level :: int
  bulletsPerShot :: "int option"
  bulletSpeed :: "rat option"

record Bullet =
  bullet_x :: rat
  bullet_y :: rat
  bullet_vx :: rat
  bullet_vy :: rat
  bullet_width :: rat
  bullet_height :: rat
  isPlayerBullet :: bool
  damage :: int

text \<open>
  \<open>levelDuration\<close> is declared \<open>number\<close>, but \<open>nextLevel\<close> stores
  \<open>levelDurations[level]\<close>, which is \<open>undefined\<close> for a key outside the table:
  \<open>None\<close> stands for \<open>undefined\<close>.
\<close>

record GameState =
  score :: int
  level :: int
  playerHealth :: int
  maxPlayerHealth :: int
  isGameOver :: bool
  isPaused :: bool
  levelStartTime :: int
  levelDuration :: "int option"

section \<open>Entity classes that the engine imports (Base, Enemy, CollisionDetector)\<close>

text \<open>
  Modelled from the spec: the class \<open>Base\<close> (./Base) is not among the source files. Its
  fields are those of spec section 3 (position, size, health, maxHealth, speed).
\<close>

record Base =
  base_x :: rat
  base_y :: rat
  base_width :: rat
  base_height :: rat
  base_health :: int
  base_maxHealth :: int
  base_speed :: rat

text \<open>
  Modelled from the spec: \<open>Base.takeDamage\<close> is missing; spec 4.1: "a damage operation that
  subtracts from health, clamping at 0".
\<close>

definition Base_takeDamage :: "int \<Rightarrow> Base \<Rightarrow> Base" where
  "Base_takeDamage amount b = b\<lparr>base_health := max 0 (base_health b - amount)\<rparr>"

text \<open>Modelled from the spec: \<open>Base.isAlive\<close> is missing; spec 4.1: "a liveness predicate (health > 0)".\<close>

definition Base_isAlive :: "Base \<Rightarrow> bool" where
  "Base_isAlive b \<longleftrightarrow> 0 < base_health b"

text \<open>
  Modelled from the spec: \<open>Base.getCenter\<close> is missing; spec 4.1: "a center-point accessor
  used for aiming", taken as the centre of the bounding box.
\<close>

definition Base_getCenter :: "Base \<Rightarrow> Position" where
  "Base_getCenter b =
     \<lparr>pos_x = base_x b + base_width b / 2, pos_y = base_y b + base_height b / 2\<rparr>"

text \<open>
  Modelled from the spec: the class \<open>Enemy\<close> (./Enemy) is not among the source files. The engine
  reads \<open>enemy.config.canShoot\<close>, so the archetype record is a field; the other fields are
  those of spec section 3 (health, position, last-shot timestamp).
\<close>

record Enemy =
  config :: EnemyConfig
  enemy_x :: rat
  enemy_y :: rat
  enemy_health :: int
  lastShotTime :: int

text \<open>
  Modelled from the spec: \<open>Enemy.update\<close> is missing; spec 4.1: "position decremented along
  its travel axis by its speed, independent of other entities". The travel axis is x (the
  defender fires with velocity (8, 0) and moves vertically).
\<close>

definition Enemy_update :: "rat \<Rightarrow> rat \<Rightarrow> Enemy \<Rightarrow> Enemy" where
  "Enemy_update canvasW canvasH en = en\<lparr>enemy_x := enemy_x en - cfg_speed (config en)\<rparr>"

text \<open>
  Modelled from the spec: \<open>Enemy.canShoot(now)\<close> is missing; spec 4.1: "comparing
  now - lastShotTimestamp >= shootInterval (only true when canShoot)".
\<close>

definition Enemy_canShoot :: "int \<Rightarrow> Enemy \<Rightarrow> bool" where
  "Enemy_canShoot now en \<longleftrightarrow>
     canShoot (config en) \<and> shootInterval (config en) \<le> now - lastShotTime en"

text \<open>
  Modelled from the spec: \<open>Enemy.takeDamage\<close> is missing; spec 4.1 lists "a damage operation"
  (no clamping is stated for adversaries, and section 3 speaks of health \<open>\<le> 0\<close>).
\<close>

definition Enemy_takeDamage :: "int \<Rightarrow> Enemy \<Rightarrow> Enemy" where
  "Enemy_takeDamage amount en = en\<lparr>enemy_health := enemy_health en - amount\<rparr>"

text \<open>
  Modelled from the spec: \<open>Enemy.isAlive\<close> is missing; section 3: an adversary is
  "destroyed when health \<open>\<le>\<close> 0".
\<close>

definition Enemy_isAlive :: "Enemy \<Rightarrow> bool" where
  "Enemy_isAlive en \<longleftrightarrow> 0 < enemy_health en"

text \<open>
  Modelled from the spec: \<open>Enemy.isOffScreen\<close> is missing; spec 4.1: "an off-screen predicate
  (exited the play area on the travel axis)". Adversaries travel towards decreasing x, so the
  exit is past the left edge.
\<close>

definition Enemy_isOffScreen :: "Enemy \<Rightarrow> bool" where
  "Enemy_isOffScreen en \<longleftrightarrow> enemy_x en + cfg_width (config en) < 0"

text \<open>
  Modelled from the spec: the class \<open>CollisionDetector\<close> is not among the source files;
  spec 4.3: "three pure predicates, all axis-aligned bounding-box overlap tests (rectangle
  intersection: overlap on both axes ...)". The spec leaves open whether touching edges
  overlap; the strict comparisons \<open><\<close>/\<open>>\<close> it mentions are used.
\<close>

definition overlap :: "rat \<Rightarrow> rat \<Rightarrow> rat \<Rightarrow> rat \<Rightarrow> rat \<Rightarrow> rat \<Rightarrow> rat \<Rightarrow> rat \<Rightarrow> bool" where
  "overlap ax ay aw ah bx bty bw bh \<longleftrightarrow>
     ax < bx + bw \<and> bx < ax + aw \<and> ay < bty + bh \<and> bty < ay + ah"

definition bulletEnemyCollision :: "Bullet \<Rightarrow> Enemy \<Rightarrow> bool" where
  "bulletEnemyCollision bl en \<longleftrightarrow>
     overlap (bullet_x bl) (bullet_y bl) (bullet_width bl) (bullet_height bl)
       (enemy_x en) (enemy_y en) (cfg_width (config en)) (cfg_height (config en))"

definition bulletBaseCollision :: "Bullet \<Rightarrow> Base \<Rightarrow> bool" where
  "bulletBaseCollision bl b \<longleftrightarrow>
     overlap (bullet_x bl) (bullet_y bl) (bullet_width bl) (bullet_height bl)
       (base_x b) (base_y b) (base_width b) (base_height b)"

definition enemyBaseCollision :: "Enemy \<Rightarrow> Base \<Rightarrow> bool" where
  "enemyBaseCollision en b \<longleftrightarrow>
     overlap (enemy_x en) (enemy_y en) (cfg_width (config en)) (cfg_height (config en))
       (base_x b) (base_y b) (base_width b) (base_height b)"

section \<open>What a call reads from outside the engine\<close>

text \<open>
  The wall clock, the random generator and the parts of the missing classes that the spec
  does not determine are inputs of the model:
  \<^item> \<open>now_update\<close>: the value of \<open>Date.now()\<close> read at the start of \<open>update\<close>;
  \<^item> \<open>now_levelStart\<close>, \<open>now_lastSpawn\<close>: the two readings of \<open>Date.now()\<close> in
    \<open>nextLevel\<close> and in \<open>reset\<close>, in that order;
  \<^item> \<open>rnd\<close>: the value of \<open>Math.random()\<close> in \<open>createRandomEnemy\<close>, which lies in [0, 1);
  \<^item> \<open>Base_new\<close>: the constructor of \<open>Base\<close> (its initial values are not in the spec);
  \<^item> \<open>Enemy_new\<close>: the constructor of \<open>Enemy\<close> (its randomised spawn position is drawn
    inside the missing class);
  \<^item> \<open>Enemy_shoot\<close>: \<open>Enemy.shoot(target)\<close>, which returns a projectile or null and may
    record the shot in the adversary (size, damage and origin of the projectile are not in
    the spec).
\<close>

record World =
  now_update :: int
  now_levelStart :: int
  now_lastSpawn :: int
  rnd :: rat
  Base_new :: "rat \<Rightarrow> rat \<Rightarrow> Base"
  Enemy_new :: "EnemyConfig \<Rightarrow> rat \<Rightarrow> rat \<Rightarrow> Enemy"
  Enemy_shoot :: "Position \<Rightarrow> Enemy \<Rightarrow> Bullet option \<times> Enemy"

section \<open>Adversary factory (src/unnamed/part_000, EnemyFactory)\<close>

definition mkConfig ::
  "EnemyType \<Rightarrow> int \<Rightarrow> rat \<Rightarrow> string \<Rightarrow> rat \<Rightarrow> bool \<Rightarrow> int \<Rightarrow> int \<Rightarrow> EnemyConfig" where
  "mkConfig t h s img sz cs si lv =
     \<lparr>etype = t, cfg_health = h, cfg_speed = s, imagePath = img, cfg_width = sz,
      cfg_height = sz, canShoot = cs, shootInterval = si, cfg_level = lv,
      bulletsPerShot = None, bulletSpeed = None\<rparr>"

text \<open>
  The static table \<open>enemyConfigs\<close>. An object's own string keys are enumerated in insertion
  order, so each inner table is an association list in source order; \<open>None\<close> is
  \<open>undefined\<close> (no entry for the wave index).
\<close>

definition enemyConfigs :: "int \<Rightarrow> (EnemyType \<times> EnemyConfig) list option" where
  "enemyConfigs lvl =
     (if lvl = 1 then Some
        [(STARKENT, mkConfig STARKENT 30 2 ''/images/starkent-the-enemy.png'' 50 False 0 1),
         (SCROLL, mkConfig SCROLL 30 2 ''/images/scroll-the-enemy.jpg'' 50 False 0 1),
         (ZKSYN, mkConfig ZKSYN 30 2 ''/images/zksyn-the-enemy.jpg'' 50 False 0 1),
         (TAIKO, mkConfig TAIKO 30 2 ''/images/taiko-the-enemy.png'' 50 False 0 1)]
      else if lvl = 2 then Some
        [(LINEA, mkConfig LINEA 50 3 ''/images/linea-the-enemy.png'' 55 True 2000 2),
         (OP, mkConfig OP 50 3 ''/images/op-the-enemy.jpg'' 55 True 2000 2)]
      else if lvl = 3 then Some
        [(ARB, mkConfig ARB 100 (3 / 2) ''/images/arb-the-enemy.jpg'' 70 True 1500 3),
         (POLYGON, mkConfig POLYGON 100 (3 / 2) ''/images/polygon-the-enemy.jpg'' 70 True 1500 3)]
      else None)"

definition getEnemyTypesForLevel :: "int \<Rightarrow> EnemyType list" where
  "getEnemyTypesForLevel lvl =
     (case enemyConfigs lvl of Some configs \<Rightarrow> map fst configs | None \<Rightarrow> [])"

text \<open>
  \<open>enemyTypes[Math.floor(Math.random() * enemyTypes.length)]\<close>: with \<open>rnd\<close> in [0, 1) the
  index is in range. For a value outside [0, 1), which \<open>Math.random\<close> never returns, the
  model returns \<open>None\<close>.
\<close>

definition createRandomEnemy :: "World \<Rightarrow> int \<Rightarrow> rat \<Rightarrow> rat \<Rightarrow> Enemy option" where
  "createRandomEnemy w lvl canvasW canvasH =
     (case enemyConfigs lvl of
        None \<Rightarrow> None
      | Some configs \<Rightarrow>
          (let enemyTypes = map fst configs;
               i = \<lfloor>rnd w * of_nat (length enemyTypes)\<rfloor>
           in if 0 \<le> i \<and> i < int (length enemyTypes) then
                (case map_of configs (enemyTypes ! nat i) of
                   Some cfg \<Rightarrow> Some (Enemy_new w cfg canvasW canvasH)
                 | None \<Rightarrow> None)
              else None))"

definition createEnemy :: "World \<Rightarrow> EnemyType \<Rightarrow> int \<Rightarrow> rat \<Rightarrow> rat \<Rightarrow> Enemy option" where
  "createEnemy w t lvl canvasW canvasH =
     (case enemyConfigs lvl of
        None \<Rightarrow> None
      | Some configs \<Rightarrow>
          (case map_of configs t of
             None \<Rightarrow> None
           | Some cfg \<Rightarrow> Some (Enemy_new w cfg canvasW canvasH)))"

section \<open>Array operations of JavaScript used by the engine\<close>

text \<open>\<open>arr.splice(i, 1)\<close>: removes the element at index \<open>i\<close>; nothing when \<open>i\<close> is past the end.\<close>

definition splice1 :: "nat \<Rightarrow> 'a list \<Rightarrow> 'a list" where
  "splice1 i xs = take i xs @ drop (Suc i) xs"

text \<open>
  \<open>Array.prototype.forEach\<close> on an array that the callback may shorten: the length is read
  once, the index runs from 0 to that length, and the callback is called with the element
  found at the index at that moment; an index that is no longer in the array is skipped.
  \<open>arr\<close> reads the array out of the state.
\<close>

function forEachFrom ::
  "nat \<Rightarrow> nat \<Rightarrow> ('s \<Rightarrow> 'a list) \<Rightarrow> ('a \<Rightarrow> nat \<Rightarrow> 's \<Rightarrow> 's) \<Rightarrow> 's \<Rightarrow> 's" where
  "forEachFrom k len arr f s =
     (if k < len then
        forEachFrom (Suc k) len arr f (if k < length (arr s) then f (arr s ! k) k s else s)
      else s)"
  by pat_completeness auto
termination
  by (relation "measure (\<lambda>(k, len, arr, f, s). len - k)") auto

declare forEachFrom.simps [simp del]

definition forEach :: "('s \<Rightarrow> 'a list) \<Rightarrow> ('a \<Rightarrow> nat \<Rightarrow> 's \<Rightarrow> 's) \<Rightarrow> 's \<Rightarrow> 's" where
  "forEach arr f s = forEachFrom 0 (length (arr s)) arr f s"

section \<open>Simulation engine (src/lib/game/GameEngine.ts)\<close>

record GameEngine =
  base :: Base
  enemies :: "Enemy list"
  bullets :: "Bullet list"
  gameState :: GameState
  canvasWidth :: rat
  canvasHeight :: rat
  lastSpawnTime :: int
  spawnInterval :: int

definition levelDurations :: "int \<Rightarrow> int option" where
  "levelDurations lvl =
     (if lvl = 1 then Some 30000 else if lvl = 2 then Some 60000
      else if lvl = 3 then Some 40000 else None)"

text \<open>The constructor; \<open>now\<close> is its reading of \<open>Date.now()\<close>.\<close>

definition constructor :: "World \<Rightarrow> int \<Rightarrow> rat \<Rightarrow> rat \<Rightarrow> GameEngine" where
  "constructor w now canvasW canvasH =
     (let b = Base_new w canvasW canvasH in
      \<lparr>base = b, enemies = [], bullets = [],
       gameState = \<lparr>score = 0, level = 1, playerHealth = base_health b,
                    maxPlayerHealth = base_maxHealth b, isGameOver = False, isPaused = False,
                    levelStartTime = now, levelDuration = levelDurations 1\<rparr>,
       canvasWidth = canvasW, canvasHeight = canvasH,
       lastSpawnTime = 0, spawnInterval = 2000\<rparr>)"

definition spawnEnemies :: "World \<Rightarrow> int \<Rightarrow> GameEngine \<Rightarrow> GameEngine" where
  "spawnEnemies w currentTime e =
     (if spawnInterval e \<le> currentTime - lastSpawnTime e then
        (let enemy = createRandomEnemy w (level (gameState e)) (canvasWidth e) (canvasHeight e);
             e1 = (case enemy of Some en \<Rightarrow> e\<lparr>enemies := enemies e @ [en]\<rparr> | None \<Rightarrow> e)
         in e1\<lparr>lastSpawnTime := currentTime,
               spawnInterval := max 800 (2000 - (level (gameState e1) - 1) * 200)\<rparr>)
      else e)"

definition nextLevel :: "World \<Rightarrow> GameEngine \<Rightarrow> GameEngine" where
  "nextLevel w e =
     (if level (gameState e) < 3 then
        (let lvl = level (gameState e) + 1 in
         e\<lparr>gameState := (gameState e)\<lparr>level := lvl, levelStartTime := now_levelStart w,
                                        levelDuration := levelDurations lvl\<rparr>,
           enemies := [], bullets := [], lastSpawnTime := now_lastSpawn w\<rparr>)
      else e\<lparr>gameState := (gameState e)\<lparr>isGameOver := True\<rparr>\<rparr>)"

definition shoot :: "GameEngine \<Rightarrow> GameEngine" where
  "shoot e =
     (let center = Base_getCenter (base e) in
      e\<lparr>bullets := bullets e @
         [\<lparr>bullet_x = pos_x center, bullet_y = pos_y center, bullet_vx = 8, bullet_vy = 0,
           bullet_width = 10, bullet_height = 10, isPlayerBullet = True, damage = 20\<rparr>]\<rparr>)"

definition reset :: "World \<Rightarrow> GameEngine \<Rightarrow> GameEngine" where
  "reset w e =
     (let b = Base_new w (canvasWidth e) (canvasHeight e) in
      e\<lparr>base := b, enemies := [], bullets := [],
        gameState := \<lparr>score = 0, level = 1, playerHealth = base_health b,
                      maxPlayerHealth = base_maxHealth b, isGameOver = False, isPaused = False,
                      levelStartTime = now_levelStart w, levelDuration = levelDurations 1\<rparr>,
        lastSpawnTime := now_lastSpawn w\<rparr>)"

subsection \<open>The phases of \<open>update\<close>\<close>

text \<open>The callback of \<open>this.enemies.forEach\<close> (lines 59-77); it changes the adversary in place.\<close>

definition updateEnemy :: "World \<Rightarrow> int \<Rightarrow> Enemy \<Rightarrow> nat \<Rightarrow> GameEngine \<Rightarrow> GameEngine" where
  "updateEnemy w currentTime enemy i e =
     (let en1 = Enemy_update (canvasWidth e) (canvasHeight e) enemy;
          (en2, e1) =
            (if Enemy_canShoot currentTime en1 then
               (let baseCenter = Base_getCenter (base e);
                    (bullet, en) = Enemy_shoot w baseCenter en1
                in (en, case bullet of Some bl \<Rightarrow> e\<lparr>bullets := bullets e @ [bl]\<rparr> | None \<Rightarrow> e))
             else (en1, e));
          (en3, e2) =
            (if \<not> canShoot (config en2) \<and> enemyBaseCollision en2 (base e1) then
               (let b = Base_takeDamage 5 (base e1) in
                (Enemy_takeDamage 100 en2,
                 e1\<lparr>base := b, gameState := (gameState e1)\<lparr>playerHealth := base_health b\<rparr>\<rparr>))
             else (en2, e1))
      in e2\<lparr>enemies := (enemies e2)[i := en3]\<rparr>)"

definition updateEnemies :: "World \<Rightarrow> int \<Rightarrow> GameEngine \<Rightarrow> GameEngine" where
  "updateEnemies w currentTime = forEach enemies (updateEnemy w currentTime)"

definition updateBullets :: "GameEngine \<Rightarrow> GameEngine" where
  "updateBullets e =
     e\<lparr>bullets := map (\<lambda>bl. bl\<lparr>bullet_x := bullet_x bl + bullet_vx bl,
                                 bullet_y := bullet_y bl + bullet_vy bl\<rparr>) (bullets e)\<rparr>"

definition removeOffScreenBullets :: "GameEngine \<Rightarrow> GameEngine" where
  "removeOffScreenBullets e =
     e\<lparr>bullets := filter (\<lambda>bl. - 50 < bullet_x bl \<and> bullet_x bl < canvasWidth e + 50 \<and>
                                - 50 < bullet_y bl \<and> bullet_y bl < canvasHeight e + 50)
                     (bullets e)\<rparr>"

definition removeOffScreenEnemies :: "GameEngine \<Rightarrow> GameEngine" where
  "removeOffScreenEnemies e = e\<lparr>enemies := filter (\<lambda>en. \<not> Enemy_isOffScreen en) (enemies e)\<rparr>"

text \<open>The callback of the inner \<open>this.enemies.forEach\<close> (lines 100-110).\<close>

definition hitEnemy :: "Bullet \<Rightarrow> nat \<Rightarrow> Enemy \<Rightarrow> nat \<Rightarrow> GameEngine \<Rightarrow> GameEngine" where
  "hitEnemy bullet bulletIndex enemy enemyIndex e =
     (if bulletEnemyCollision bullet enemy then
        (let en = Enemy_takeDamage (damage bullet) enemy;
             e1 = e\<lparr>enemies := (enemies e)[enemyIndex := en]\<rparr>;
             e2 = e1\<lparr>bullets := splice1 bulletIndex (bullets e1)\<rparr>
         in if \<not> Enemy_isAlive en then
              e2\<lparr>gameState := (gameState e2)
                    \<lparr>score := score (gameState e2) + 10 * level (gameState e2)\<rparr>,
                 enemies := splice1 enemyIndex (enemies e2)\<rparr>
            else e2)
      else e)"

definition playerBulletsVsEnemies :: "GameEngine \<Rightarrow> GameEngine" where
  "playerBulletsVsEnemies =
     forEach bullets (\<lambda>bullet bulletIndex e.
       if isPlayerBullet bullet then forEach enemies (hitEnemy bullet bulletIndex) e else e)"

text \<open>The callback of the last \<open>this.bullets.forEach\<close> (lines 115-127).\<close>

definition hitBase :: "Bullet \<Rightarrow> nat \<Rightarrow> GameEngine \<Rightarrow> GameEngine" where
  "hitBase bullet bulletIndex e =
     (if \<not> isPlayerBullet bullet \<and> bulletBaseCollision bullet (base e) then
        (let b = Base_takeDamage (damage bullet) (base e);
             e1 = e\<lparr>base := b, gameState := (gameState e)\<lparr>playerHealth := base_health b\<rparr>,
                    bullets := splice1 bulletIndex (bullets e)\<rparr>
         in if \<not> Base_isAlive b then e1\<lparr>gameState := (gameState e1)\<lparr>isGameOver := True\<rparr>\<rparr>
            else e1)
      else e)"

definition enemyBulletsVsBase :: "GameEngine \<Rightarrow> GameEngine" where
  "enemyBulletsVsBase = forEach bullets hitBase"

text \<open>Lines 55-95: everything between the wave check and the collision passes.\<close>

definition beforeCollisions :: "World \<Rightarrow> int \<Rightarrow> GameEngine \<Rightarrow> GameEngine" where
  "beforeCollisions w currentTime e =
     removeOffScreenEnemies (removeOffScreenBullets (updateBullets
       (updateEnemies w currentTime (spawnEnemies w currentTime e))))"

text \<open>\<open>levelElapsed >= levelDuration\<close>; a comparison with \<open>undefined\<close> is false.\<close>

definition durationElapsed :: "int \<Rightarrow> int option \<Rightarrow> bool" where
  "durationElapsed levelElapsed d = (case d of Some n \<Rightarrow> n \<le> levelElapsed | None \<Rightarrow> False)"

definition update :: "World \<Rightarrow> GameEngine \<Rightarrow> GameEngine" where
  "update w e =
     (if isPaused (gameState e) \<or> isGameOver (gameState e) then e
      else
        (let currentTime = now_update w;
             levelElapsed = currentTime - levelStartTime (gameState e)
         in if durationElapsed levelElapsed (levelDuration (gameState e)) then nextLevel w e
            else
              (let e1 = enemyBulletsVsBase
                          (playerBulletsVsEnemies (beforeCollisions w currentTime e))
               in e1\<lparr>gameState := (gameState e1)\<lparr>playerHealth := base_health (base e1)\<rparr>\<rparr>)))"

section \<open>Notions used in the statements\<close>

definition running :: "GameEngine \<Rightarrow> bool" where
  "running e \<longleftrightarrow> \<not> isPaused (gameState e) \<and> \<not> isGameOver (gameState e)"

text \<open>The wave check of \<open>update\<close> (line 50) at the clock reading \<open>now_update w\<close>.\<close>

definition waveElapsed :: "World \<Rightarrow> GameEngine \<Rightarrow> bool" where
  "waveElapsed w e \<longleftrightarrow>
     durationElapsed (now_update w - levelStartTime (gameState e)) (levelDuration (gameState e))"

text \<open>The fields that only the wave check, the spawn step and \<open>reset\<close> write.\<close>

definition timing ::
  "GameEngine \<Rightarrow> int \<times> int \<times> int option \<times> bool \<times> int \<times> int \<times> rat \<times> rat" where
  "timing e =
     (level (gameState e), levelStartTime (gameState e), levelDuration (gameState e),
      isPaused (gameState e), lastSpawnTime e, spawnInterval e, canvasWidth e, canvasHeight e)"

text \<open>
  The engine states that can arise: a new engine, and what the operations of the engine and
  the writes of its caller make of one (the caller toggles \<open>isPaused\<close> and moves the
  defender vertically; \<open>Base.moveUp\<close>/\<open>moveDown\<close> are not among the source files, so any
  new vertical position is admitted).
\<close>

inductive reachable :: "GameEngine \<Rightarrow> bool" where
  created: "reachable (constructor w t cw ch)"
| advanced: "reachable e \<Longrightarrow> reachable (update w e)"
| nextLeveled: "reachable e \<Longrightarrow> reachable (nextLevel w e)"
| fired: "reachable e \<Longrightarrow> reachable (shoot e)"
| wasReset: "reachable e \<Longrightarrow> reachable (reset w e)"
| pauseToggled:
    "reachable e \<Longrightarrow>
     reachable (e\<lparr>gameState := (gameState e)\<lparr>isPaused := \<not> isPaused (gameState e)\<rparr>\<rparr>)"
| moved: "reachable e \<Longrightarrow> reachable (e\<lparr>base := (base e)\<lparr>base_y := y\<rparr>\<rparr>)"

text \<open>
  What the collision pass between the defender's projectiles and the adversaries may do to
  an engine \<open>e\<close>: any number of hits, each by a projectile of \<open>e\<close> that the defender owns
  on an adversary that it overlaps. A hit that leaves the adversary alive only wounds it; a
  hit that brings its health to 0 or below removes it and adds \<open>10 * level\<close> to the score.
  Either hit removes one array element of the projectiles.
\<close>

inductive resolves :: "GameEngine \<Rightarrow> GameEngine \<Rightarrow> bool" where
  untouched: "resolves e e"
| wound:
    "resolves e s \<Longrightarrow> b \<in> set (bullets e) \<Longrightarrow> isPlayerBullet b \<Longrightarrow> ei < length (enemies s) \<Longrightarrow>
     bulletEnemyCollision b (enemies s ! ei) \<Longrightarrow>
     Enemy_isAlive (Enemy_takeDamage (damage b) (enemies s ! ei)) \<Longrightarrow>
     resolves e
       (s\<lparr>enemies := (enemies s)[ei := Enemy_takeDamage (damage b) (enemies s ! ei)],
          bullets := splice1 bi (bullets s)\<rparr>)"
| kill:
    "resolves e s \<Longrightarrow> b \<in> set (bullets e) \<Longrightarrow> isPlayerBullet b \<Longrightarrow> ei < length (enemies s) \<Longrightarrow>
     bulletEnemyCollision b (enemies s ! ei) \<Longrightarrow>
     \<not> Enemy_isAlive (Enemy_takeDamage (damage b) (enemies s ! ei)) \<Longrightarrow>
     resolves e
       (s\<lparr>enemies := splice1 ei (enemies s), bullets := splice1 bi (bullets s),
          gameState := (gameState s)\<lparr>score := score (gameState s) + 10 * level (gameState s)\<rparr>\<rparr>)"

section \<open>Sample states\<close>

text \<open>
  Concrete inputs on which the theorems are instantiated: a clock reading 5000 ms, a
  defender of 50 x 50 at (50, 275) with health 100 in a play area of 800 x 600, and an
  engine whose wave started at 0 and whose last spawn was at 4000.
\<close>

definition sampleWorld :: World where
  "sampleWorld =
     \<lparr>now_update = 5000, now_levelStart = 5001, now_lastSpawn = 5002, rnd = 1 / 2,
      Base_new = (\<lambda>cw ch. \<lparr>base_x = 50, base_y = ch / 2 - 25, base_width = 50,
                            base_height = 50, base_health = 100, base_maxHealth = 100,
                            base_speed = 5\<rparr>),
      Enemy_new = (\<lambda>cfg cw ch. \<lparr>config = cfg, enemy_x = cw, enemy_y = ch / 2,
                                  enemy_health = cfg_health cfg, lastShotTime = 0\<rparr>),
      Enemy_shoot = (\<lambda>target en. (None, en))\<rparr>"

definition sampleBase :: Base where
  "sampleBase = \<lparr>base_x = 50, base_y = 275, base_width = 50, base_height = 50,
                  base_health = 100, base_maxHealth = 100, base_speed = 5\<rparr>"

definition sampleEngine :: "int \<Rightarrow> Enemy list \<Rightarrow> Bullet list \<Rightarrow> GameEngine" where
  "sampleEngine lvl ens bls =
     \<lparr>base = sampleBase, enemies = ens, bullets = bls,
      gameState = \<lparr>score = 0, level = lvl, playerHealth = 100, maxPlayerHealth = 100,
                   isGameOver = False, isPaused = False, levelStartTime = 0,
                   levelDuration = levelDurations lvl\<rparr>,
      canvasWidth = 800, canvasHeight = 600, lastSpawnTime = 4000, spawnInterval = 2000\<rparr>"

definition meleeEnemy :: "rat \<Rightarrow> rat \<Rightarrow> Enemy" where
  "meleeEnemy ex ey =
     \<lparr>config = mkConfig STARKENT 30 2 ''/images/starkent-the-enemy.png'' 50 False 0 1,
      enemy_x = ex, enemy_y = ey, enemy_health = 30, lastShotTime = 0\<rparr>"

definition playerBullet :: "rat \<Rightarrow> rat \<Rightarrow> Bullet" where
  "playerBullet px py =
     \<lparr>bullet_x = px, bullet_y = py, bullet_vx = 8, bullet_vy = 0, bullet_width = 10,
      bullet_height = 10, isPlayerBullet = True, damage = 20\<rparr>"

definition pausedEngine :: GameEngine where
  "pausedEngine =
     (sampleEngine 1 [meleeEnemy 60 280] [playerBullet 402 110])
       \<lparr>gameState := (gameState (sampleEngine 1 [meleeEnemy 60 280] [playerBullet 402 110]))
          \<lparr>isPaused := True\<rparr>\<rparr>"

definition shooterEnemy :: "rat \<Rightarrow> rat \<Rightarrow> int \<Rightarrow> Enemy" where
  "shooterEnemy ex ey hp =
     \<lparr>config = mkConfig LINEA 50 3 ''/images/linea-the-enemy.png'' 55 True 2000 2,
      enemy_x = ex, enemy_y = ey, enemy_health = hp, lastShotTime = 4000\<rparr>"

text \<open>Clock readings at the end of wave 1, at the end of wave 3, and at a spawn.\<close>

definition lateWorld :: World where
  "lateWorld = sampleWorld\<lparr>now_update := 30000\<rparr>"

definition lastWorld :: World where
  "lastWorld = sampleWorld\<lparr>now_update := 40000\<rparr>"

definition spawnWorld :: World where
  "spawnWorld = sampleWorld\<lparr>now_update := 6000\<rparr>"

section \<open>The loops preserve what their callbacks preserve\<close>

lemma forEachFrom_invariant:
  assumes "P s" and "\<And>k s. P s \<Longrightarrow> k < length (arr s) \<Longrightarrow> P (f (arr s ! k) k s)"
  shows "P (forEachFrom k len arr f s)"
  using assms
proof (induction k len arr f s rule: forEachFrom.induct)
  case (1 k len arr f s)
  show ?case
  proof (cases "k < len")
    case True
    have step: "P (if k < length (arr s) then f (arr s ! k) k s else s)"
      using "1.prems" by simp
    have "P (forEachFrom (Suc k) len arr f (if k < length (arr s) then f (arr s ! k) k s else s))"
      using "1.IH" [OF True step] "1.prems"(2) by blast
    with True show ?thesis by (simp add: forEachFrom.simps [of k len])
  next
    case False
    with "1.prems" show ?thesis by (simp add: forEachFrom.simps [of k len])
  qed
qed

lemma forEach_invariant:
  assumes "P s" and "\<And>k s. P s \<Longrightarrow> k < length (arr s) \<Longrightarrow> P (f (arr s ! k) k s)"
  shows "P (forEach arr f s)"
  unfolding forEach_def using assms by (rule forEachFrom_invariant)

lemma timing_updateEnemy: "timing (updateEnemy w t en i e) = timing e"
  by (auto simp: updateEnemy_def timing_def Let_def split: prod.splits option.splits if_splits)

lemma timing_updateEnemies: "timing (updateEnemies w t e) = timing e"
  unfolding updateEnemies_def
  by (rule forEach_invariant [where P = "\<lambda>s. timing s = timing e"])
     (simp_all add: timing_updateEnemy)

lemma timing_updateBullets: "timing (updateBullets e) = timing e"
  by (simp add: updateBullets_def timing_def)

lemma timing_removeOffScreenBullets: "timing (removeOffScreenBullets e) = timing e"
  by (simp add: removeOffScreenBullets_def timing_def)

lemma timing_removeOffScreenEnemies: "timing (removeOffScreenEnemies e) = timing e"
  by (simp add: removeOffScreenEnemies_def timing_def)

lemma timing_hitEnemy: "timing (hitEnemy bl bi en ei e) = timing e"
  by (simp add: hitEnemy_def timing_def Let_def)

lemma timing_playerBulletsVsEnemies: "timing (playerBulletsVsEnemies e) = timing e"
proof -
  have inner: "timing (forEach enemies (hitEnemy bl bi) s) = timing s" for bl bi s
    by (rule forEach_invariant [where P = "\<lambda>s'. timing s' = timing s"])
       (simp_all add: timing_hitEnemy)
  show ?thesis
    unfolding playerBulletsVsEnemies_def
    by (rule forEach_invariant [where P = "\<lambda>s. timing s = timing e"]) (simp_all add: inner)
qed

lemma timing_hitBase: "timing (hitBase bl bi e) = timing e"
  by (simp add: hitBase_def timing_def Let_def)

lemma timing_enemyBulletsVsBase: "timing (enemyBulletsVsBase e) = timing e"
  unfolding enemyBulletsVsBase_def
  by (rule forEach_invariant [where P = "\<lambda>s. timing s = timing e"])
     (simp_all add: timing_hitBase)

lemma timing_beforeCollisions:
  "timing (beforeCollisions w t e) = timing (spawnEnemies w t e)"
  by (simp add: beforeCollisions_def timing_removeOffScreenEnemies
      timing_removeOffScreenBullets timing_updateBullets timing_updateEnemies)

lemma timing_update_playing:
  assumes "running e" and "\<not> waveElapsed w e"
  shows "timing (update w e) = timing (spawnEnemies w (now_update w) e)"
proof -
  let ?e1 = "enemyBulletsVsBase (playerBulletsVsEnemies (beforeCollisions w (now_update w) e))"
  have "timing ?e1 = timing (spawnEnemies w (now_update w) e)"
    by (simp add: timing_enemyBulletsVsBase timing_playerBulletsVsEnemies
        timing_beforeCollisions)
  moreover have
    "timing (?e1\<lparr>gameState := (gameState ?e1)\<lparr>playerHealth := base_health (base ?e1)\<rparr>\<rparr>)
       = timing ?e1"
    by (simp add: timing_def)
  ultimately show ?thesis
    using assms by (simp add: update_def running_def waveElapsed_def Let_def)
qed

lemma level_spawnEnemies: "level (gameState (spawnEnemies w t e)) = level (gameState e)"
  by (simp add: spawnEnemies_def Let_def split: option.splits)

lemma level_update_playing:
  assumes "running e" and "\<not> waveElapsed w e"
  shows "level (gameState (update w e)) = level (gameState e)"
proof -
  have "fst (timing (update w e)) = fst (timing (spawnEnemies w (now_update w) e))"
    using timing_update_playing [OF assms] by simp
  then show ?thesis by (simp add: timing_def level_spawnEnemies)
qed

lemma update_transition:
  assumes "running e" and "waveElapsed w e"
  shows "update w e = nextLevel w e"
  using assms by (simp add: update_def running_def waveElapsed_def)

lemma update_stopped: "\<not> running e \<Longrightarrow> update w e = e"
  by (auto simp: update_def running_def)

lemmas sample_defs = sampleWorld_def sampleBase_def sampleEngine_def meleeEnemy_def
  playerBullet_def pausedEngine_def shooterEnemy_def lateWorld_def lastWorld_def spawnWorld_def
  mkConfig_def levelDurations_def

lemmas engine_defs = update_def beforeCollisions_def spawnEnemies_def updateEnemies_def
  updateEnemy_def updateBullets_def removeOffScreenBullets_def removeOffScreenEnemies_def
  playerBulletsVsEnemies_def hitEnemy_def enemyBulletsVsBase_def hitBase_def forEach_def
  forEachFrom.simps splice1_def durationElapsed_def Let_def
  Enemy_update_def Enemy_canShoot_def Enemy_takeDamage_def Enemy_isAlive_def
  Enemy_isOffScreen_def Base_takeDamage_def Base_isAlive_def Base_getCenter_def
  overlap_def bulletEnemyCollision_def bulletBaseCollision_def enemyBaseCollision_def

section \<open>The wave check\<close>

text \<open>
  C1, as the code has it: while the time elapsed since the wave start is strictly below the
  wave duration, \<open>update\<close> leaves the wave index unchanged, in every engine state. When the
  engine is neither paused nor over and the elapsed time has reached the duration,
  \<open>update\<close> performs exactly one transition and nothing else in that call: below wave 3
  the result is the old engine with the wave index incremented once, no adversaries, no
  projectiles, the wave-start timestamp and the spawn timer set to the clock readings of the
  transition and the duration of the new wave loaded; at wave 3 the result is the old engine
  with only the game-over flag set. The table of durations is 30000, 60000 and 40000 ms
  for waves 1, 2 and 3.
\<close>

theorem wave_check:
  "(levelDuration (gameState e) = Some d \<and> now_update w - levelStartTime (gameState e) < d
      \<longrightarrow> level (gameState (update w e)) = level (gameState e))
   \<and> (running e \<and> levelDuration (gameState e) = Some d
        \<and> d \<le> now_update w - levelStartTime (gameState e) \<and> level (gameState e) < 3
      \<longrightarrow> update w e =
            e\<lparr>gameState := (gameState e)
                 \<lparr>level := level (gameState e) + 1, levelStartTime := now_levelStart w,
                  levelDuration := levelDurations (level (gameState e) + 1)\<rparr>,
              enemies := [], bullets := [], lastSpawnTime := now_lastSpawn w\<rparr>)
   \<and> (running e \<and> levelDuration (gameState e) = Some d
        \<and> d \<le> now_update w - levelStartTime (gameState e) \<and> level (gameState e) = 3
      \<longrightarrow> update w e = e\<lparr>gameState := (gameState e)\<lparr>isGameOver := True\<rparr>\<rparr>)
   \<and> levelDurations 1 = Some 30000 \<and> levelDurations 2 = Some 60000
   \<and> levelDurations 3 = Some 40000"
proof (intro conjI impI)
  assume a: "levelDuration (gameState e) = Some d \<and> now_update w - levelStartTime (gameState e) < d"
  then have ne: "\<not> waveElapsed w e" by (simp add: waveElapsed_def durationElapsed_def)
  show "level (gameState (update w e)) = level (gameState e)"
  proof (cases "running e")
    case True
    then show ?thesis using ne by (rule level_update_playing)
  next
    case False
    then show ?thesis by (simp add: update_stopped)
  qed
next
  assume a: "running e \<and> levelDuration (gameState e) = Some d
        \<and> d \<le> now_update w - levelStartTime (gameState e) \<and> level (gameState e) < 3"
  then have "waveElapsed w e" by (simp add: waveElapsed_def durationElapsed_def)
  with a have "update w e = nextLevel w e" by (simp add: update_transition)
  with a show "update w e =
            e\<lparr>gameState := (gameState e)
                 \<lparr>level := level (gameState e) + 1, levelStartTime := now_levelStart w,
                  levelDuration := levelDurations (level (gameState e) + 1)\<rparr>,
              enemies := [], bullets := [], lastSpawnTime := now_lastSpawn w\<rparr>"
    by (simp add: nextLevel_def Let_def)
next
  assume a: "running e \<and> levelDuration (gameState e) = Some d
        \<and> d \<le> now_update w - levelStartTime (gameState e) \<and> level (gameState e) = 3"
  then have "waveElapsed w e" by (simp add: waveElapsed_def durationElapsed_def)
  with a have "update w e = nextLevel w e" by (simp add: update_transition)
  with a show "update w e = e\<lparr>gameState := (gameState e)\<lparr>isGameOver := True\<rparr>\<rparr>"
    by (simp add: nextLevel_def)
qed (simp_all add: levelDurations_def)

theorem wave_check_witness:
  "(levelDuration (gameState (sampleEngine 1 [meleeEnemy 400 100] [])) = Some 30000
      \<and> now_update sampleWorld - levelStartTime (gameState (sampleEngine 1 [meleeEnemy 400 100] [])) < 30000)
   \<and> level (gameState (update sampleWorld (sampleEngine 1 [meleeEnemy 400 100] []))) = 1
   \<and> (running (sampleEngine 1 [meleeEnemy 400 100] [])
      \<and> 30000 \<le> now_update lateWorld - levelStartTime (gameState (sampleEngine 1 [meleeEnemy 400 100] []))
      \<and> level (gameState (sampleEngine 1 [meleeEnemy 400 100] [])) < 3)
   \<and> level (gameState (update lateWorld (sampleEngine 1 [meleeEnemy 400 100] []))) = 2
   \<and> levelDuration (gameState (update lateWorld (sampleEngine 1 [meleeEnemy 400 100] []))) = Some 60000
   \<and> enemies (update lateWorld (sampleEngine 1 [meleeEnemy 400 100] [])) = []
   \<and> lastSpawnTime (update lateWorld (sampleEngine 1 [meleeEnemy 400 100] [])) = 5002
   \<and> (running (sampleEngine 3 [] [])
      \<and> levelDuration (gameState (sampleEngine 3 [] [])) = Some 40000
      \<and> 40000 \<le> now_update lastWorld - levelStartTime (gameState (sampleEngine 3 [] []))
      \<and> level (gameState (sampleEngine 3 [] [])) = 3)
   \<and> isGameOver (gameState (update lastWorld (sampleEngine 3 [] [])))
   \<and> level (gameState (update lastWorld (sampleEngine 3 [] []))) = 3"
proof -
  let ?e = "sampleEngine 1 [meleeEnemy 400 100] []"
  have h1: "levelDuration (gameState ?e) = Some 30000
      \<and> now_update sampleWorld - levelStartTime (gameState ?e) < 30000"
    by (simp add: sample_defs)
  have h2: "running ?e \<and> levelDuration (gameState ?e) = Some 30000
      \<and> 30000 \<le> now_update lateWorld - levelStartTime (gameState ?e)
      \<and> level (gameState ?e) < 3"
    by (simp add: sample_defs running_def)
  have h3: "running (sampleEngine 3 [] [])
      \<and> levelDuration (gameState (sampleEngine 3 [] [])) = Some 40000
      \<and> 40000 \<le> now_update lastWorld - levelStartTime (gameState (sampleEngine 3 [] []))
      \<and> level (gameState (sampleEngine 3 [] [])) = 3"
    by (simp add: sample_defs running_def)
  have c1: "level (gameState (update sampleWorld ?e)) = level (gameState ?e)"
    using wave_check [of ?e 30000 sampleWorld] h1 by blast
  have c2: "update lateWorld ?e =
      ?e\<lparr>gameState := (gameState ?e)
            \<lparr>level := level (gameState ?e) + 1, levelStartTime := now_levelStart lateWorld,
             levelDuration := levelDurations (level (gameState ?e) + 1)\<rparr>,
         enemies := [], bullets := [], lastSpawnTime := now_lastSpawn lateWorld\<rparr>"
    using wave_check [of ?e 30000 lateWorld] h2 by blast
  have c3: "update lastWorld (sampleEngine 3 [] []) =
      (sampleEngine 3 [] [])\<lparr>gameState := (gameState (sampleEngine 3 [] []))\<lparr>isGameOver := True\<rparr>\<rparr>"
    using wave_check [of "sampleEngine 3 [] []" 40000 lastWorld] h3 by blast
  show ?thesis
    unfolding c1 c2 c3 using h1 h2 h3 by (simp add: sample_defs)
qed

text \<open>
  C1 as it is worded speaks of every engine state. In a paused engine whose wave-1 duration
  has elapsed, \<open>update\<close> performs no transition: the wave index stays 1, the adversaries stay,
  the engine is returned as it was.
\<close>

theorem wave_check_paused_counterexample:
  "isPaused (gameState pausedEngine)
   \<and> levelDuration (gameState pausedEngine) = Some 30000
   \<and> 30000 \<le> now_update lateWorld - levelStartTime (gameState pausedEngine)
   \<and> level (gameState pausedEngine) < 3
   \<and> level (gameState (update lateWorld pausedEngine)) \<noteq> level (gameState pausedEngine) + 1
   \<and> enemies (update lateWorld pausedEngine) \<noteq> []
   \<and> update lateWorld pausedEngine = pausedEngine"
  by (simp add: update_def sample_defs)

section \<open>The advance operation while paused or over\<close>

text \<open>
  C2: whenever the paused flag or the game-over flag is set, one call of \<open>update\<close> returns
  the engine unchanged in every field (defender, adversaries, projectiles, game state,
  timers), whatever the clock reads; a second call, at any later clock reading, again
  returns the same engine.
\<close>

theorem update_noop_when_paused_or_over:
  assumes "isPaused (gameState e) \<or> isGameOver (gameState e)"
  shows "update w e = e \<and> update w' (update w e) = e"
  using assms by (simp add: update_def)

theorem update_noop_when_paused_or_over_witness:
  "(isPaused (gameState pausedEngine) \<or> isGameOver (gameState pausedEngine))
   \<and> update sampleWorld pausedEngine = pausedEngine
   \<and> update (sampleWorld\<lparr>now_update := 30000\<rparr>) (update sampleWorld pausedEngine) = pausedEngine"
proof -
  have h: "isPaused (gameState pausedEngine) \<or> isGameOver (gameState pausedEngine)"
    by (simp add: pausedEngine_def)
  from update_noop_when_paused_or_over [OF h, of sampleWorld "sampleWorld\<lparr>now_update := 30000\<rparr>"] h
  show ?thesis by blast
qed

section \<open>Projectiles of the defender against adversaries\<close>

text \<open>
  C3 says that a projectile of the defender resolves against at most one adversary per call.
  The loop of \<open>update\<close> removes an array element on a hit but keeps testing the same
  projectile against the remaining adversaries. Here a wave-1 engine holds two overlapping
  adversaries of health 30 and two projectiles of the defender, the first over both
  adversaries and the second far from them. After one call both adversaries have lost 20,
  and both projectiles are gone: the second hit removed whatever stood at the first
  projectile's old index.
\<close>

theorem projectile_hits_two_adversaries:
  "map enemy_health (enemies (sampleEngine 1 [meleeEnemy 400 100, meleeEnemy 401 100]
                     [playerBullet 402 110, playerBullet 100 500])) = [30, 30]
   \<and> map enemy_health (enemies (update sampleWorld
      (sampleEngine 1 [meleeEnemy 400 100, meleeEnemy 401 100]
                     [playerBullet 402 110, playerBullet 100 500]))) = [10, 10]
   \<and> bullets (update sampleWorld
      (sampleEngine 1 [meleeEnemy 400 100, meleeEnemy 401 100]
                     [playerBullet 402 110, playerBullet 100 500])) = []"
  by (simp add: engine_defs sample_defs)

section \<open>Melee contact\<close>

text \<open>
  C4 says that a melee adversary touching the defender costs 5 health and is removed in the
  same call. Here the only adversary of a wave-1 engine overlaps the defender and there are
  no projectiles. After one call the defender has 95 health and the adversary, now at
  health -70, is still in the collection; a second call strikes again (health 90) and the
  adversary is still there.
\<close>

theorem melee_adversary_stays:
  "base_health (base (update sampleWorld (sampleEngine 1 [meleeEnemy 60 280] []))) = 95
   \<and> enemies (update sampleWorld (sampleEngine 1 [meleeEnemy 60 280] []))
       = [(meleeEnemy 58 280)\<lparr>enemy_health := - 70\<rparr>]
   \<and> base_health (base (update sampleWorld (update sampleWorld (sampleEngine 1 [meleeEnemy 60 280] [])))) = 90
   \<and> enemies (update sampleWorld (update sampleWorld (sampleEngine 1 [meleeEnemy 60 280] [])))
       = [(meleeEnemy 56 280)\<lparr>enemy_health := - 170\<rparr>]"
  by (simp add: engine_defs sample_defs)

section \<open>Scoring\<close>

lemma length_splice1: "i < length xs \<Longrightarrow> length (splice1 i xs) = length xs - 1"
  by (simp add: splice1_def)

lemma tally_hitEnemy:
  assumes "ei < length (enemies e)"
  shows "level (gameState (hitEnemy bl bi en ei e)) = level (gameState e)
    \<and> score (gameState (hitEnemy bl bi en ei e))
        + 10 * level (gameState e) * int (length (enemies (hitEnemy bl bi en ei e)))
      = score (gameState e) + 10 * level (gameState e) * int (length (enemies e))"
proof -
  have "int (length (enemies e) - 1) = int (length (enemies e)) - 1"
    using assms by (cases "enemies e") simp_all
  with assms show ?thesis
    by (simp add: hitEnemy_def Let_def length_splice1 algebra_simps)
qed

lemma tally_playerBulletsVsEnemies:
  "level (gameState (playerBulletsVsEnemies e)) = level (gameState e)
    \<and> score (gameState (playerBulletsVsEnemies e))
        + 10 * level (gameState e) * int (length (enemies (playerBulletsVsEnemies e)))
      = score (gameState e) + 10 * level (gameState e) * int (length (enemies e))"
proof -
  let ?P = "\<lambda>s::GameEngine. level (gameState s) = level (gameState e)
    \<and> score (gameState s) + 10 * level (gameState e) * int (length (enemies s))
      = score (gameState e) + 10 * level (gameState e) * int (length (enemies e))"
  have inner: "?P (forEach enemies (hitEnemy bl bi) s)" if "?P s" for bl bi s
  proof (rule forEach_invariant [where P = ?P])
    show "?P s" by (rule that)
  next
    fix k s' assume "?P s'" and "k < length (enemies s')"
    then show "?P (hitEnemy bl bi (enemies s' ! k) k s')"
      using tally_hitEnemy [of k s' bl bi "enemies s' ! k"] by simp
  qed
  have "?P (playerBulletsVsEnemies e)"
    unfolding playerBulletsVsEnemies_def
  proof (rule forEach_invariant [where P = ?P])
    show "?P e" by simp
  next
    fix k s assume "?P s" and "k < length (bullets s)"
    then show "?P (if isPlayerBullet (bullets s ! k)
        then forEach enemies (hitEnemy (bullets s ! k) k) s else s)"
      using inner by simp
  qed
  then show ?thesis .
qed

lemma score_enemies_enemyBulletsVsBase:
  "score (gameState (enemyBulletsVsBase e)) = score (gameState e)
   \<and> enemies (enemyBulletsVsBase e) = enemies e"
  unfolding enemyBulletsVsBase_def
  by (rule forEach_invariant
        [where P = "\<lambda>s::GameEngine. score (gameState s) = score (gameState e) \<and> enemies s = enemies e"])
     (simp_all add: hitBase_def Let_def)

lemma score_updateEnemy: "score (gameState (updateEnemy w t en i e)) = score (gameState e)"
  by (auto simp: updateEnemy_def Let_def split: prod.splits option.splits if_splits)

lemma score_updateEnemies: "score (gameState (updateEnemies w t e)) = score (gameState e)"
  unfolding updateEnemies_def
  by (rule forEach_invariant [where P = "\<lambda>s::GameEngine. score (gameState s) = score (gameState e)"])
     (simp_all add: score_updateEnemy)

lemma score_spawnEnemies: "score (gameState (spawnEnemies w t e)) = score (gameState e)"
  by (simp add: spawnEnemies_def Let_def split: option.splits)

lemma score_beforeCollisions:
  "score (gameState (beforeCollisions w t e)) = score (gameState e)"
  by (simp add: beforeCollisions_def removeOffScreenEnemies_def removeOffScreenBullets_def
      updateBullets_def score_updateEnemies score_spawnEnemies)

lemma level_beforeCollisions:
  "level (gameState (beforeCollisions w t e)) = level (gameState e)"
proof -
  have "fst (timing (beforeCollisions w t e)) = fst (timing (spawnEnemies w t e))"
    by (simp add: timing_beforeCollisions)
  then show ?thesis by (simp add: timing_def level_spawnEnemies)
qed

lemma score_accounting:
  "score (gameState (hitEnemy bl bi en ei e))
     = score (gameState e)
       + (if bulletEnemyCollision bl en \<and> \<not> Enemy_isAlive (Enemy_takeDamage (damage bl) en)
          then 10 * level (gameState e) else 0)
   \<and> (ei < length (enemies e) \<longrightarrow>
        int (length (enemies (hitEnemy bl bi en ei e)))
          = int (length (enemies e))
            - (if bulletEnemyCollision bl en \<and> \<not> Enemy_isAlive (Enemy_takeDamage (damage bl) en)
               then 1 else 0))
   \<and> score (gameState (playerBulletsVsEnemies e))
       = score (gameState e)
         + 10 * level (gameState e)
           * (int (length (enemies e)) - int (length (enemies (playerBulletsVsEnemies e))))
   \<and> score (gameState (nextLevel w e)) = score (gameState e)
   \<and> score (gameState (removeOffScreenEnemies e)) = score (gameState e)
   \<and> (running e \<and> \<not> waveElapsed w e \<longrightarrow>
        score (gameState (update w e))
          = score (gameState e)
            + 10 * level (gameState e)
              * (int (length (enemies (beforeCollisions w (now_update w) e)))
                 - int (length (enemies (update w e)))))"
proof (intro conjI impI)
  show "score (gameState (hitEnemy bl bi en ei e))
     = score (gameState e)
       + (if bulletEnemyCollision bl en \<and> \<not> Enemy_isAlive (Enemy_takeDamage (damage bl) en)
          then 10 * level (gameState e) else 0)"
    by (simp add: hitEnemy_def Let_def)
next
  assume "ei < length (enemies e)"
  moreover from this have "int (length (enemies e) - 1) = int (length (enemies e)) - 1"
    by (cases "enemies e") simp_all
  ultimately show "int (length (enemies (hitEnemy bl bi en ei e)))
          = int (length (enemies e))
            - (if bulletEnemyCollision bl en \<and> \<not> Enemy_isAlive (Enemy_takeDamage (damage bl) en)
               then 1 else 0)"
    by (simp add: hitEnemy_def Let_def length_splice1)
next
  show "score (gameState (playerBulletsVsEnemies e))
       = score (gameState e)
         + 10 * level (gameState e)
           * (int (length (enemies e)) - int (length (enemies (playerBulletsVsEnemies e))))"
    using tally_playerBulletsVsEnemies [of e] by (simp add: algebra_simps)
next
  show "score (gameState (nextLevel w e)) = score (gameState e)"
    by (simp add: nextLevel_def Let_def)
next
  show "score (gameState (removeOffScreenEnemies e)) = score (gameState e)"
    by (simp add: removeOffScreenEnemies_def)
next
  assume a: "running e \<and> \<not> waveElapsed w e"
  let ?x = "beforeCollisions w (now_update w) e"
  let ?y = "playerBulletsVsEnemies ?x"
  let ?z = "enemyBulletsVsBase ?y"
  have u: "update w e = ?z\<lparr>gameState := (gameState ?z)\<lparr>playerHealth := base_health (base ?z)\<rparr>\<rparr>"
    using a by (simp add: update_def running_def waveElapsed_def Let_def)
  have s: "score (gameState (update w e)) = score (gameState ?y)"
    and n: "enemies (update w e) = enemies ?y"
    unfolding u using score_enemies_enemyBulletsVsBase [of ?y] by simp_all
  have "score (gameState ?y) + 10 * level (gameState ?x) * int (length (enemies ?y))
      = score (gameState ?x) + 10 * level (gameState ?x) * int (length (enemies ?x))"
    using tally_playerBulletsVsEnemies [of ?x] by simp
  then show "score (gameState (update w e))
          = score (gameState e)
            + 10 * level (gameState e)
              * (int (length (enemies ?x)) - int (length (enemies (update w e))))"
    unfolding s n by (simp add: score_beforeCollisions level_beforeCollisions algebra_simps)
qed

lemma splice1_list_update: "splice1 i (xs[i := y]) = splice1 i xs"
  by (simp add: splice1_def)

lemma set_splice1: "set (splice1 i xs) \<subseteq> set xs"
  unfolding splice1_def using set_take_subset [of i xs] set_drop_subset [of "Suc i" xs] by auto

lemma bullets_hitEnemy: "set (bullets (hitEnemy b bi en ei s)) \<subseteq> set (bullets s)"
  using set_splice1 [of bi "bullets s"] by (simp add: hitEnemy_def Let_def)

lemma resolves_hitEnemy:
  assumes "resolves e s" and "b \<in> set (bullets e)" and "isPlayerBullet b"
    and "ei < length (enemies s)"
  shows "resolves e (hitEnemy b bi (enemies s ! ei) ei s)"
proof (cases "bulletEnemyCollision b (enemies s ! ei)")
  case False
  with assms(1) show ?thesis by (simp add: hitEnemy_def)
next
  case True
  show ?thesis
  proof (cases "Enemy_isAlive (Enemy_takeDamage (damage b) (enemies s ! ei))")
    case alive: True
    have "hitEnemy b bi (enemies s ! ei) ei s =
        s\<lparr>enemies := (enemies s)[ei := Enemy_takeDamage (damage b) (enemies s ! ei)],
          bullets := splice1 bi (bullets s)\<rparr>"
      using True alive by (simp add: hitEnemy_def Let_def)
    then show ?thesis
      using resolves.wound [OF assms True alive, of bi] by simp
  next
    case dead: False
    have "hitEnemy b bi (enemies s ! ei) ei s =
        s\<lparr>enemies := splice1 ei (enemies s), bullets := splice1 bi (bullets s),
          gameState := (gameState s)\<lparr>score := score (gameState s) + 10 * level (gameState s)\<rparr>\<rparr>"
      using True dead by (simp add: hitEnemy_def Let_def splice1_list_update)
    then show ?thesis
      using resolves.kill [OF assms True dead, of bi] by simp
  qed
qed

lemma resolves_playerBulletsVsEnemies: "resolves e (playerBulletsVsEnemies e)"
proof -
  let ?P = "\<lambda>s::GameEngine. resolves e s \<and> set (bullets s) \<subseteq> set (bullets e)"
  have inner: "?P (forEach enemies (hitEnemy b bi) s)" if "?P s" and "b \<in> set (bullets e)"
    and "isPlayerBullet b" for b bi s
  proof (rule forEach_invariant [where P = ?P])
    show "?P s" by (rule that)
  next
    fix k s' assume "?P s'" and "k < length (enemies s')"
    then show "?P (hitEnemy b bi (enemies s' ! k) k s')"
      using resolves_hitEnemy [of e s' b k bi] bullets_hitEnemy [of b bi "enemies s' ! k" k s'] that(2,3)
      by blast
  qed
  have "?P (playerBulletsVsEnemies e)"
    unfolding playerBulletsVsEnemies_def
  proof (rule forEach_invariant [where P = ?P])
    show "?P e" by (simp add: resolves.untouched)
  next
    fix k s assume p: "?P s" and k: "k < length (bullets s)"
    then have "bullets s ! k \<in> set (bullets e)" by (auto simp: subset_iff)
    then show "?P (if isPlayerBullet (bullets s ! k)
        then forEach enemies (hitEnemy (bullets s ! k) k) s else s)"
      using inner [of s "bullets s ! k" k] p by simp
  qed
  then show ?thesis by simp
qed

lemma resolves_no_overlap:
  assumes "resolves e s"
    and "\<forall>b\<in>set (bullets e). isPlayerBullet b \<longrightarrow> (\<forall>en\<in>set (enemies e). \<not> bulletEnemyCollision b en)"
  shows "s = e"
  using assms
proof (induction rule: resolves.induct)
  case (untouched e)
  show ?case by simp
next
  case (wound e s b ei bi)
  then have "s = e" by simp
  with wound show ?case by (metis nth_mem)
next
  case (kill e s b ei bi)
  then have "s = e" by simp
  with kill show ?case by (metis nth_mem)
qed

lemma playerBulletsVsEnemies_single:
  assumes "bullets e = [b]" and "enemies e = [en]"
  shows "playerBulletsVsEnemies e = (if isPlayerBullet b then hitEnemy b 0 en 0 e else e)"
proof -
  have one: "forEach enemies (hitEnemy b 0) e = hitEnemy b 0 en 0 e"
  proof -
    have "length (enemies (hitEnemy b 0 en 0 e)) \<le> 1"
      using assms by (simp add: hitEnemy_def Let_def splice1_def)
    then show ?thesis
      using assms by (simp add: forEach_def forEachFrom.simps [of 0] forEachFrom.simps [of "Suc 0"])
  qed
  have "length (bullets (if isPlayerBullet b then hitEnemy b 0 en 0 e else e)) \<le> 1"
    using assms by (simp add: hitEnemy_def Let_def splice1_def)
  then show ?thesis
    using assms one
    by (simp add: playerBulletsVsEnemies_def forEach_def forEachFrom.simps [of 0]
        forEachFrom.simps [of "Suc 0"])
qed

lemma update_collisions:
  assumes "running e" and "\<not> waveElapsed w e"
  shows "score (gameState (update w e))
      = score (gameState (playerBulletsVsEnemies (beforeCollisions w (now_update w) e)))"
    and "enemies (update w e)
      = enemies (playerBulletsVsEnemies (beforeCollisions w (now_update w) e))"
proof -
  let ?y = "playerBulletsVsEnemies (beforeCollisions w (now_update w) e)"
  let ?z = "enemyBulletsVsBase ?y"
  have u: "update w e = ?z\<lparr>gameState := (gameState ?z)\<lparr>playerHealth := base_health (base ?z)\<rparr>\<rparr>"
    using assms by (simp add: update_def running_def waveElapsed_def Let_def)
  show "score (gameState (update w e)) = score (gameState ?y)"
    and "enemies (update w e) = enemies ?y"
    unfolding u using score_enemies_enemyBulletsVsBase [of ?y] by simp_all
qed

text \<open>
  C5: one hit of a projectile adds \<open>10 * level\<close> to the score exactly when the adversary's
  health after the hit is not positive, and that is exactly when the adversary leaves the
  collection; over the whole collision pass the score grows by \<open>10 * level\<close> for each
  adversary removed there. A wave transition and the pruning of off-screen adversaries leave
  the score as it is. For a whole call of \<open>update\<close> on a running engine whose wave has not
  elapsed, the score grows by \<open>10 * level\<close> times the number of adversaries that the
  collision pass removed.

  The removals and the score of the pass come from lethal hits of the defender's
  projectiles and from nothing else: the pass, and with it the score and the adversaries
  at the end of a call of \<open>update\<close>, is a sequence of hits in the sense of \<open>resolves\<close>; when no
  projectile of the defender overlaps an adversary the pass changes nothing, and the call
  leaves the score and the adversaries as they were after movement and pruning; with one
  projectile and one adversary the pass is exactly one hit callback if the defender owns
  the projectile, and nothing otherwise.
\<close>

theorem score_per_elimination:
  "score (gameState (hitEnemy bl bi en ei e))
     = score (gameState e)
       + (if bulletEnemyCollision bl en \<and> \<not> Enemy_isAlive (Enemy_takeDamage (damage bl) en)
          then 10 * level (gameState e) else 0)
   \<and> (ei < length (enemies e) \<longrightarrow>
        int (length (enemies (hitEnemy bl bi en ei e)))
          = int (length (enemies e))
            - (if bulletEnemyCollision bl en \<and> \<not> Enemy_isAlive (Enemy_takeDamage (damage bl) en)
               then 1 else 0))
   \<and> score (gameState (playerBulletsVsEnemies e))
       = score (gameState e)
         + 10 * level (gameState e)
           * (int (length (enemies e)) - int (length (enemies (playerBulletsVsEnemies e))))
   \<and> score (gameState (nextLevel w e)) = score (gameState e)
   \<and> score (gameState (removeOffScreenEnemies e)) = score (gameState e)
   \<and> (running e \<and> \<not> waveElapsed w e \<longrightarrow>
        score (gameState (update w e))
          = score (gameState e)
            + 10 * level (gameState e)
              * (int (length (enemies (beforeCollisions w (now_update w) e)))
                 - int (length (enemies (update w e)))))
   \<and> resolves e (playerBulletsVsEnemies e)
   \<and> ((\<forall>p\<in>set (bullets e). isPlayerBullet p \<longrightarrow>
          (\<forall>a\<in>set (enemies e). \<not> bulletEnemyCollision p a))
        \<longrightarrow> playerBulletsVsEnemies e = e)
   \<and> (bullets e = [p] \<and> enemies e = [a] \<longrightarrow>
        playerBulletsVsEnemies e = (if isPlayerBullet p then hitEnemy p 0 a 0 e else e))
   \<and> (running e \<and> \<not> waveElapsed w e \<longrightarrow>
        (\<exists>s. resolves (beforeCollisions w (now_update w) e) s
           \<and> score (gameState (update w e)) = score (gameState s)
           \<and> enemies (update w e) = enemies s)
        \<and> score (gameState (beforeCollisions w (now_update w) e)) = score (gameState e))
   \<and> (running e \<and> \<not> waveElapsed w e
        \<and> (\<forall>p\<in>set (bullets (beforeCollisions w (now_update w) e)). isPlayerBullet p \<longrightarrow>
             (\<forall>a\<in>set (enemies (beforeCollisions w (now_update w) e)).
                \<not> bulletEnemyCollision p a))
        \<longrightarrow> score (gameState (update w e)) = score (gameState e)
            \<and> enemies (update w e) = enemies (beforeCollisions w (now_update w) e))"
proof -
  let ?x = "beforeCollisions w (now_update w) e"
  note old = score_accounting [of bl bi en ei e w]
  have n7: "resolves e (playerBulletsVsEnemies e)"
    by (rule resolves_playerBulletsVsEnemies)
  have pin: "playerBulletsVsEnemies x = x"
    if "\<forall>p\<in>set (bullets x). isPlayerBullet p \<longrightarrow>
          (\<forall>a\<in>set (enemies x). \<not> bulletEnemyCollision p a)" for x
    using resolves_no_overlap [OF resolves_playerBulletsVsEnemies that] .
  have n8: "(\<forall>p\<in>set (bullets e). isPlayerBullet p \<longrightarrow>
          (\<forall>a\<in>set (enemies e). \<not> bulletEnemyCollision p a))
        \<longrightarrow> playerBulletsVsEnemies e = e"
    using pin [of e] by blast
  have n9: "bullets e = [p] \<and> enemies e = [a] \<longrightarrow>
        playerBulletsVsEnemies e = (if isPlayerBullet p then hitEnemy p 0 a 0 e else e)"
    using playerBulletsVsEnemies_single [of e p a] by blast
  have n10: "running e \<and> \<not> waveElapsed w e \<longrightarrow>
        (\<exists>s. resolves ?x s
           \<and> score (gameState (update w e)) = score (gameState s)
           \<and> enemies (update w e) = enemies s)
        \<and> score (gameState ?x) = score (gameState e)"
  proof (intro impI conjI)
    assume a: "running e \<and> \<not> waveElapsed w e"
    then have "resolves ?x (playerBulletsVsEnemies ?x)
        \<and> score (gameState (update w e)) = score (gameState (playerBulletsVsEnemies ?x))
        \<and> enemies (update w e) = enemies (playerBulletsVsEnemies ?x)"
      using update_collisions [of e w] resolves_playerBulletsVsEnemies [of ?x] by simp
    then show "\<exists>s. resolves ?x s
           \<and> score (gameState (update w e)) = score (gameState s)
           \<and> enemies (update w e) = enemies s" ..
  next
    show "score (gameState ?x) = score (gameState e)" by (rule score_beforeCollisions)
  qed
  have n11: "running e \<and> \<not> waveElapsed w e
        \<and> (\<forall>p\<in>set (bullets ?x). isPlayerBullet p \<longrightarrow>
             (\<forall>a\<in>set (enemies ?x). \<not> bulletEnemyCollision p a))
        \<longrightarrow> score (gameState (update w e)) = score (gameState e)
            \<and> enemies (update w e) = enemies ?x"
  proof
    assume a: "running e \<and> \<not> waveElapsed w e
        \<and> (\<forall>p\<in>set (bullets ?x). isPlayerBullet p \<longrightarrow>
             (\<forall>a\<in>set (enemies ?x). \<not> bulletEnemyCollision p a))"
    then have "playerBulletsVsEnemies ?x = ?x" using pin [of ?x] by blast
    with a show "score (gameState (update w e)) = score (gameState e)
            \<and> enemies (update w e) = enemies ?x"
      using update_collisions [of e w] by (simp add: score_beforeCollisions)
  qed
  from old n7 n8 n9 n10 n11 show ?thesis
    by (elim conjE) (intro conjI; assumption)
qed

theorem score_per_elimination_witness:
  "(0 < length (enemies (sampleEngine 2 [shooterEnemy 397 100 20] [playerBullet 410 110])))
   \<and> score (gameState (hitEnemy (playerBullet 410 110) 0 (shooterEnemy 397 100 20) 0
        (sampleEngine 2 [shooterEnemy 397 100 20] [playerBullet 410 110]))) = 20
   \<and> length (enemies (hitEnemy (playerBullet 410 110) 0 (shooterEnemy 397 100 20) 0
        (sampleEngine 2 [shooterEnemy 397 100 20] [playerBullet 410 110]))) = 0
   \<and> running (sampleEngine 2 [shooterEnemy 400 100 20] [playerBullet 402 110])
   \<and> \<not> waveElapsed sampleWorld (sampleEngine 2 [shooterEnemy 400 100 20] [playerBullet 402 110])
   \<and> score (gameState (update sampleWorld
        (sampleEngine 2 [shooterEnemy 400 100 20] [playerBullet 402 110]))) = 20
   \<and> score (gameState (playerBulletsVsEnemies
        (sampleEngine 2 [shooterEnemy 397 100 20] [playerBullet 410 110]))) = 20
   \<and> enemies (playerBulletsVsEnemies
        (sampleEngine 2 [shooterEnemy 397 100 20] [playerBullet 410 110])) = []
   \<and> score (gameState (playerBulletsVsEnemies
        (sampleEngine 2 [shooterEnemy 397 100 50] [playerBullet 410 110]))) = 0
   \<and> enemies (playerBulletsVsEnemies
        (sampleEngine 2 [shooterEnemy 397 100 50] [playerBullet 410 110]))
       = [shooterEnemy 397 100 30]
   \<and> playerBulletsVsEnemies
        (sampleEngine 2 [shooterEnemy 397 100 20] [(playerBullet 410 110)\<lparr>isPlayerBullet := False\<rparr>])
       = sampleEngine 2 [shooterEnemy 397 100 20] [(playerBullet 410 110)\<lparr>isPlayerBullet := False\<rparr>]
   \<and> score (gameState (update sampleWorld
        (sampleEngine 2 [shooterEnemy 400 100 20] [playerBullet 100 500]))) = 0
   \<and> map enemy_health (enemies (update sampleWorld
        (sampleEngine 2 [shooterEnemy 400 100 20] [playerBullet 100 500]))) = [20]"
proof -
  let ?b = "playerBullet 410 110" and ?n = "shooterEnemy 397 100 20"
  let ?e = "sampleEngine 2 [?n] [?b]"
  let ?f = "sampleEngine 2 [shooterEnemy 400 100 20] [playerBullet 402 110]"
  let ?m = "shooterEnemy 397 100 50"
  let ?g = "sampleEngine 2 [?m] [?b]"
  let ?o = "?b\<lparr>isPlayerBullet := False\<rparr>"
  let ?h = "sampleEngine 2 [?n] [?o]"
  let ?i = "sampleEngine 2 [shooterEnemy 400 100 20] [playerBullet 100 500]"
  have h1: "0 < length (enemies ?e)" by (simp add: sample_defs)
  have h2: "running ?f \<and> \<not> waveElapsed sampleWorld ?f"
    by (simp add: sample_defs running_def waveElapsed_def durationElapsed_def)
  have k: "bulletEnemyCollision ?b ?n \<and> \<not> Enemy_isAlive (Enemy_takeDamage (damage ?b) ?n)"
    by (simp add: sample_defs bulletEnemyCollision_def overlap_def Enemy_isAlive_def
        Enemy_takeDamage_def)
  have v: "score (gameState ?e) = 0" "level (gameState ?e) = 2" "length (enemies ?e) = 1"
    "score (gameState ?f) = 0" "level (gameState ?f) = 2"
    by (simp_all add: sample_defs)
  have b: "length (enemies (beforeCollisions sampleWorld (now_update sampleWorld) ?f)) = 1"
    by (simp add: engine_defs sample_defs)
  have a: "enemies (update sampleWorld ?f) = []"
    by (simp add: engine_defs sample_defs)
  note t1 = score_per_elimination [of ?b 0 ?n 0 ?e sampleWorld ?b ?n]
  note t2 = score_per_elimination [of ?b 0 ?n 0 ?f sampleWorld ?b ?n]
  note t3 = score_per_elimination [of ?b 0 ?m 0 ?g sampleWorld ?b ?m]
  note t4 = score_per_elimination [of ?b 0 ?n 0 ?h sampleWorld ?o ?n]
  note t5 = score_per_elimination [of ?b 0 ?n 0 ?i sampleWorld ?b ?n]
  have c1: "score (gameState (hitEnemy ?b 0 ?n 0 ?e)) = 20"
    using t1 k v by simp
  have c2: "length (enemies (hitEnemy ?b 0 ?n 0 ?e)) = 0"
    using t1 h1 k v by simp
  have c3: "score (gameState (update sampleWorld ?f)) = 20"
    using t2 h2 v b a by simp
  have s1: "bullets ?e = [?b] \<and> enemies ?e = [?n]" by (simp add: sample_defs)
  have p1: "playerBulletsVsEnemies ?e = hitEnemy ?b 0 ?n 0 ?e"
  proof -
    have "playerBulletsVsEnemies ?e = (if isPlayerBullet ?b then hitEnemy ?b 0 ?n 0 ?e else ?e)"
      using t1 by (elim conjE) (erule mp, rule s1)
    then show ?thesis by (simp add: playerBullet_def)
  qed
  have c4: "score (gameState (playerBulletsVsEnemies ?e)) = 20" unfolding p1 by (rule c1)
  have c5: "enemies (playerBulletsVsEnemies ?e) = []" unfolding p1 using c2 by simp
  have s3: "bullets ?g = [?b] \<and> enemies ?g = [?m]" by (simp add: sample_defs)
  have p3: "playerBulletsVsEnemies ?g = hitEnemy ?b 0 ?m 0 ?g"
  proof -
    have "playerBulletsVsEnemies ?g = (if isPlayerBullet ?b then hitEnemy ?b 0 ?m 0 ?g else ?g)"
      using t3 by (elim conjE) (erule mp, rule s3)
    then show ?thesis by (simp add: playerBullet_def)
  qed
  have c6: "score (gameState (playerBulletsVsEnemies ?g)) = 0"
    and c7: "enemies (playerBulletsVsEnemies ?g) = [shooterEnemy 397 100 30]"
    unfolding p3
    by (simp_all add: sample_defs hitEnemy_def Let_def bulletEnemyCollision_def overlap_def
        Enemy_isAlive_def Enemy_takeDamage_def splice1_def)
  have s4: "\<forall>p\<in>set (bullets ?h). isPlayerBullet p \<longrightarrow>
      (\<forall>a\<in>set (enemies ?h). \<not> bulletEnemyCollision p a)"
    by (simp add: sample_defs)
  have c8: "playerBulletsVsEnemies ?h = ?h"
    using t4 by (elim conjE) (erule mp, rule s4)
  have h5: "running ?i \<and> \<not> waveElapsed sampleWorld ?i
      \<and> (\<forall>p\<in>set (bullets (beforeCollisions sampleWorld (now_update sampleWorld) ?i)).
            isPlayerBullet p \<longrightarrow>
            (\<forall>a\<in>set (enemies (beforeCollisions sampleWorld (now_update sampleWorld) ?i)).
               \<not> bulletEnemyCollision p a))"
    by (simp add: engine_defs sample_defs running_def waveElapsed_def)
  have x5: "map enemy_health (enemies (beforeCollisions sampleWorld (now_update sampleWorld) ?i))
      = [20]"
    by (simp add: engine_defs sample_defs)
  have r5: "score (gameState (update sampleWorld ?i)) = score (gameState ?i)
      \<and> enemies (update sampleWorld ?i)
          = enemies (beforeCollisions sampleWorld (now_update sampleWorld) ?i)"
    using t5 by (elim conjE) (erule mp, rule h5)
  have c9: "score (gameState (update sampleWorld ?i)) = 0"
    using r5 by (simp add: sample_defs)
  have c10: "map enemy_health (enemies (update sampleWorld ?i)) = [20]"
    using r5 x5 by simp
  show ?thesis
    by (intro conjI h1 c1 c2 c3 c4 c5 c6 c7 c8 c9 c10 conjunct1 [OF h2] conjunct2 [OF h2])
qed

section \<open>Spawn interval\<close>

text \<open>
  C6: whenever the spawn step performs a spawn (the time since the last spawn has reached the
  stored interval), the interval it stores is \<open>max 800 (2000 - (level - 1) * 200)\<close>, a
  function of the wave index alone. The engine state is arbitrary, so this holds after any
  number of earlier spawns. It is also the interval stored at the end of a whole call of
  \<open>update\<close> that spawns.
\<close>

theorem spawn_interval_formula:
  assumes "spawnInterval e \<le> t - lastSpawnTime e"
  shows "spawnInterval (spawnEnemies w t e) = max 800 (2000 - (level (gameState e) - 1) * 200)
    \<and> (running e \<and> \<not> waveElapsed w e \<and> t = now_update w \<longrightarrow>
         spawnInterval (update w e) = max 800 (2000 - (level (gameState e) - 1) * 200))"
proof -
  have s: "spawnInterval (spawnEnemies w t e) = max 800 (2000 - (level (gameState e) - 1) * 200)"
    using assms by (simp add: spawnEnemies_def Let_def split: option.splits)
  have "spawnInterval (update w e) = spawnInterval (spawnEnemies w (now_update w) e)"
    if "running e" and "\<not> waveElapsed w e"
  proof -
    have "timing (update w e) = timing (spawnEnemies w (now_update w) e)"
      using that by (rule timing_update_playing)
    then show ?thesis by (simp add: timing_def)
  qed
  with s show ?thesis by auto
qed

theorem spawn_interval_formula_witness:
  "spawnInterval (sampleEngine 2 [] []) \<le> 6000 - lastSpawnTime (sampleEngine 2 [] [])
   \<and> spawnInterval (spawnEnemies spawnWorld 6000 (sampleEngine 2 [] [])) = 1800
   \<and> running (sampleEngine 2 [] []) \<and> \<not> waveElapsed spawnWorld (sampleEngine 2 [] [])
   \<and> 6000 = now_update spawnWorld
   \<and> spawnInterval (update spawnWorld (sampleEngine 2 [] [])) = 1800"
proof -
  have h: "spawnInterval (sampleEngine 2 [] []) \<le> 6000 - lastSpawnTime (sampleEngine 2 [] [])"
    by (simp add: sample_defs)
  have g: "running (sampleEngine 2 [] []) \<and> \<not> waveElapsed spawnWorld (sampleEngine 2 [] [])
      \<and> 6000 = now_update spawnWorld"
    by (simp add: sample_defs spawnWorld_def running_def waveElapsed_def durationElapsed_def)
  have v: "max 800 (2000 - (level (gameState (sampleEngine 2 [] [])) - 1) * 200) = 1800"
    by (simp add: sample_defs)
  from spawn_interval_formula [OF h, of spawnWorld] g h show ?thesis
    unfolding v by blast
qed

section \<open>Range of the wave index\<close>

lemma level_nextLevel:
  "level (gameState (nextLevel w e))
     = (if level (gameState e) < 3 then level (gameState e) + 1 else level (gameState e))"
  by (simp add: nextLevel_def Let_def)

lemma level_update:
  "level (gameState (update w e)) = level (gameState e)
   \<or> level (gameState e) < 3 \<and> level (gameState (update w e)) = level (gameState e) + 1"
proof (cases "running e")
  case False
  then show ?thesis by (simp add: update_stopped)
next
  case True
  show ?thesis
  proof (cases "waveElapsed w e")
    case True
    with \<open>running e\<close> show ?thesis by (simp add: update_transition level_nextLevel)
  next
    case False
    with \<open>running e\<close> show ?thesis by (simp add: level_update_playing)
  qed
qed

text \<open>
  C7: the wave index is 1 in a new engine and after \<open>reset\<close>; \<open>update\<close>, \<open>nextLevel\<close>,
  \<open>shoot\<close> and \<open>reset\<close> map an index in {1, 2, 3} to an index in {1, 2, 3}; and when
  \<open>update\<close> or \<open>nextLevel\<close> changes the index, the index was below 3 and is incremented by
  one. Hence the index is in {1, 2, 3} in every engine state that can arise.
\<close>

theorem wave_index_range:
  "level (gameState (constructor w t cw ch)) = 1
   \<and> level (gameState (reset w e)) = 1
   \<and> (level (gameState e) \<in> {1, 2, 3} \<longrightarrow>
        level (gameState (update w e)) \<in> {1, 2, 3}
        \<and> level (gameState (nextLevel w e)) \<in> {1, 2, 3}
        \<and> level (gameState (shoot e)) \<in> {1, 2, 3}
        \<and> level (gameState (reset w e)) \<in> {1, 2, 3})
   \<and> (level (gameState (update w e)) \<noteq> level (gameState e) \<longrightarrow>
        level (gameState e) < 3 \<and> level (gameState (update w e)) = level (gameState e) + 1)
   \<and> (level (gameState (nextLevel w e)) \<noteq> level (gameState e) \<longrightarrow>
        level (gameState e) < 3 \<and> level (gameState (nextLevel w e)) = level (gameState e) + 1)
   \<and> level (gameState (shoot e)) = level (gameState e)
   \<and> (reachable e \<longrightarrow> level (gameState e) \<in> {1, 2, 3})"
proof -
  have c: "level (gameState (constructor w t cw ch)) = 1" for w t cw ch
    by (simp add: constructor_def Let_def)
  have r: "level (gameState (reset w e)) = 1" for w e
    by (simp add: reset_def Let_def)
  have s: "level (gameState (shoot e)) = level (gameState e)" for e
    by (simp add: shoot_def Let_def)
  have n: "level (gameState (nextLevel w e)) \<in> {1, 2, 3}" if "level (gameState e) \<in> {1, 2, 3}"
    for w e
    using that by (auto simp: level_nextLevel)
  have u: "level (gameState (update w e)) \<in> {1, 2, 3}" if "level (gameState e) \<in> {1, 2, 3}"
    for w e
    using that level_update [of w e] by auto
  have u': "level (gameState e) < 3 \<and> level (gameState (update w e)) = level (gameState e) + 1"
    if "level (gameState (update w e)) \<noteq> level (gameState e)"
    using that level_update [of w e] by auto
  have n': "level (gameState e) < 3 \<and> level (gameState (nextLevel w e)) = level (gameState e) + 1"
    if "level (gameState (nextLevel w e)) \<noteq> level (gameState e)"
    using that by (simp add: level_nextLevel split: if_splits)
  have inv: "level (gameState e) \<in> {1, 2, 3}" if "reachable e"
    using that
  proof (induction rule: reachable.induct)
    case (created w t cw ch)
    show ?case by (simp add: c)
  next
    case (advanced e w)
    then show ?case by (simp only: u)
  next
    case (nextLeveled e w)
    then show ?case by (simp only: n)
  next
    case (fired e)
    then show ?case by (simp only: s)
  next
    case (wasReset e w)
    show ?case by (simp add: r)
  next
    case (pauseToggled e)
    then show ?case by simp
  next
    case (moved e y)
    then show ?case by simp
  qed
  from c r s n u u' n' inv show ?thesis by simp
qed

theorem wave_index_range_witness:
  "reachable (update lateWorld (constructor sampleWorld 0 800 600))
   \<and> level (gameState (update lateWorld (constructor sampleWorld 0 800 600))) \<in> {1, 2, 3}
   \<and> level (gameState (sampleEngine 1 [] [])) \<in> {1, 2, 3}
   \<and> level (gameState (update lateWorld (sampleEngine 1 [] []))) \<in> {1, 2, 3}
   \<and> level (gameState (nextLevel lateWorld (sampleEngine 1 [] []))) \<in> {1, 2, 3}
   \<and> level (gameState (update lateWorld (sampleEngine 1 [] [])))
        \<noteq> level (gameState (sampleEngine 1 [] []))
   \<and> level (gameState (nextLevel lateWorld (sampleEngine 1 [] [])))
        \<noteq> level (gameState (sampleEngine 1 [] []))
   \<and> level (gameState (sampleEngine 1 [] [])) < 3
   \<and> level (gameState (update lateWorld (sampleEngine 1 [] [])))
        = level (gameState (sampleEngine 1 [] [])) + 1"
proof -
  let ?e = "sampleEngine 1 [] []"
  let ?c = "update lateWorld (constructor sampleWorld 0 800 600)"
  have h0: "reachable ?c" by (intro reachable.advanced reachable.created)
  have h1: "level (gameState ?e) \<in> {1, 2, 3}" by (simp add: sample_defs)
  have h2: "level (gameState (update lateWorld ?e)) \<noteq> level (gameState ?e)"
    by (simp add: update_def nextLevel_def durationElapsed_def Let_def sample_defs)
  have h3: "level (gameState (nextLevel lateWorld ?e)) \<noteq> level (gameState ?e)"
    by (simp add: nextLevel_def Let_def sample_defs)
  note t1 = wave_index_range [of lateWorld 0 800 600 ?e]
  note t2 = wave_index_range [of lateWorld 0 800 600 ?c]
  have c0: "level (gameState ?c) \<in> {1, 2, 3}"
    using t2 h0 by (elim conjE) (erule mp)
  have c1: "level (gameState (update lateWorld ?e)) \<in> {1, 2, 3}"
    and c2: "level (gameState (nextLevel lateWorld ?e)) \<in> {1, 2, 3}"
    using t1 h1 by (elim conjE, simp)+
  have c3: "level (gameState ?e) < 3"
    and c4: "level (gameState (update lateWorld ?e)) = level (gameState ?e) + 1"
    using t1 h2 by (elim conjE, simp)+
  show ?thesis
    by (intro conjI h0 h1 h2 h3 c0 c1 c2 c3 c4)
qed

section \<open>The factory on unknown waves and archetypes\<close>

lemma enemyConfigs_None: "enemyConfigs lvl = None \<longleftrightarrow> lvl \<notin> {1, 2, 3}"
  by (simp add: enemyConfigs_def)

text \<open>
  C8: for a wave index without a table (any index other than 1, 2, 3), the list operation
  returns the empty list and both instantiation operations return no adversary; a request
  for an archetype that is not among those of the wave returns no adversary. The
  operations are total and have no error outcome.
\<close>

theorem factory_absence:
  "(enemyConfigs lvl = None \<longrightarrow>
      getEnemyTypesForLevel lvl = [] \<and> createRandomEnemy w lvl cw ch = None
      \<and> createEnemy w t lvl cw ch = None)
   \<and> (t \<notin> set (getEnemyTypesForLevel lvl) \<longrightarrow> createEnemy w t lvl cw ch = None)
   \<and> (enemyConfigs lvl = None \<longleftrightarrow> lvl \<notin> {1, 2, 3})"
proof (intro conjI impI)
  assume "enemyConfigs lvl = None"
  then show "getEnemyTypesForLevel lvl = []" "createRandomEnemy w lvl cw ch = None"
    "createEnemy w t lvl cw ch = None"
    by (simp_all add: getEnemyTypesForLevel_def createRandomEnemy_def createEnemy_def)
next
  assume a: "t \<notin> set (getEnemyTypesForLevel lvl)"
  show "createEnemy w t lvl cw ch = None"
  proof (cases "enemyConfigs lvl")
    case None
    then show ?thesis by (simp add: createEnemy_def)
  next
    case (Some configs)
    with a have "t \<notin> fst ` set configs" by (simp add: getEnemyTypesForLevel_def)
    then have "map_of configs t = None" by (simp add: map_of_eq_None_iff)
    with Some show ?thesis by (simp add: createEnemy_def)
  qed
next
  show "enemyConfigs lvl = None \<longleftrightarrow> lvl \<notin> {1, 2, 3}" by (rule enemyConfigs_None)
qed

theorem factory_absence_witness:
  "enemyConfigs 4 = None
   \<and> getEnemyTypesForLevel 4 = [] \<and> createRandomEnemy sampleWorld 4 800 600 = None
   \<and> createEnemy sampleWorld ARB 4 800 600 = None
   \<and> ARB \<notin> set (getEnemyTypesForLevel 1)
   \<and> createEnemy sampleWorld ARB 1 800 600 = None"
proof -
  have h1: "enemyConfigs 4 = None" by (simp add: enemyConfigs_def)
  have h2: "ARB \<notin> set (getEnemyTypesForLevel 1)"
    by (simp add: getEnemyTypesForLevel_def enemyConfigs_def)
  from factory_absence [of 4 sampleWorld 800 600 ARB]
    factory_absence [of 1 sampleWorld 800 600 ARB] h1 h2
  show ?thesis by blast
qed

section \<open>Firing\<close>

text \<open>
  C9: in every engine state \<open>shoot\<close> returns the engine with exactly one projectile
  appended: owned by the defender, at the centre of the defender, with velocity (8, 0), size
  10 x 10 and damage 20. No other field changes, and nothing limits the rate: two calls
  append two projectiles.
\<close>

theorem shoot_appends_one:
  "shoot e =
     e\<lparr>bullets := bullets e @
        [\<lparr>bullet_x = pos_x (Base_getCenter (base e)), bullet_y = pos_y (Base_getCenter (base e)),
          bullet_vx = 8, bullet_vy = 0, bullet_width = 10, bullet_height = 10,
          isPlayerBullet = True, damage = 20\<rparr>]\<rparr>
   \<and> pos_x (Base_getCenter (base e)) = base_x (base e) + base_width (base e) / 2
   \<and> pos_y (Base_getCenter (base e)) = base_y (base e) + base_height (base e) / 2
   \<and> length (bullets (shoot (shoot e))) = length (bullets e) + 2"
  by (simp add: shoot_def Let_def Base_getCenter_def)

section \<open>The spawn interval across transitions and resets\<close>

text \<open>
  C10: \<open>nextLevel\<close> and \<open>reset\<close> keep the stored spawn interval, and so does a call of
  \<open>update\<close> that performs a transition. The first spawn afterwards is therefore gated by
  the interval stored before, and only that spawn stores the value of the formula for the
  new wave (2000 after a reset).
\<close>

theorem spawn_interval_kept:
  "spawnInterval (nextLevel w e) = spawnInterval e
   \<and> spawnInterval (reset w e) = spawnInterval e
   \<and> (running e \<and> waveElapsed w e \<longrightarrow> spawnInterval (update w e) = spawnInterval e)
   \<and> spawnInterval (spawnEnemies w' t (nextLevel w e))
       = (if spawnInterval e \<le> t - lastSpawnTime (nextLevel w e)
          then max 800 (2000 - (level (gameState (nextLevel w e)) - 1) * 200)
          else spawnInterval e)
   \<and> lastSpawnTime (spawnEnemies w' t (nextLevel w e))
       = (if spawnInterval e \<le> t - lastSpawnTime (nextLevel w e)
          then t else lastSpawnTime (nextLevel w e))
   \<and> spawnInterval (spawnEnemies w' t (reset w e))
       = (if spawnInterval e \<le> t - now_lastSpawn w then 2000 else spawnInterval e)
   \<and> lastSpawnTime (spawnEnemies w' t (reset w e))
       = (if spawnInterval e \<le> t - now_lastSpawn w then t else now_lastSpawn w)"
proof -
  have n: "spawnInterval (nextLevel w e) = spawnInterval e"
    by (simp add: nextLevel_def Let_def)
  have r: "spawnInterval (reset w e) = spawnInterval e"
    and rl: "lastSpawnTime (reset w e) = now_lastSpawn w"
    and rv: "level (gameState (reset w e)) = 1"
    by (simp_all add: reset_def Let_def)
  have u: "spawnInterval (update w e) = spawnInterval e" if "running e \<and> waveElapsed w e"
    using that n by (simp add: update_transition)
  have g: "spawnInterval (spawnEnemies w' t x)
      = (if spawnInterval x \<le> t - lastSpawnTime x
         then max 800 (2000 - (level (gameState x) - 1) * 200) else spawnInterval x)"
    and gl: "lastSpawnTime (spawnEnemies w' t x)
      = (if spawnInterval x \<le> t - lastSpawnTime x then t else lastSpawnTime x)" for x
    by (simp_all add: spawnEnemies_def Let_def split: option.splits)
  show ?thesis
    using u
    by (simp add: g [of "nextLevel w e"] g [of "reset w e"] gl [of "nextLevel w e"]
        gl [of "reset w e"] n r rl rv)
qed

theorem spawn_interval_kept_witness:
  "running (sampleEngine 1 [] []) \<and> waveElapsed lateWorld (sampleEngine 1 [] [])
   \<and> spawnInterval (update lateWorld (sampleEngine 1 [] [])) = 2000
   \<and> spawnInterval (spawnEnemies sampleWorld 6900 (nextLevel lateWorld (sampleEngine 1 [] []))) = 2000
   \<and> spawnInterval (spawnEnemies sampleWorld 7002 (nextLevel lateWorld (sampleEngine 1 [] []))) = 1800"
proof -
  let ?e = "sampleEngine 1 [] []"
  have h: "running ?e \<and> waveElapsed lateWorld ?e"
    by (simp add: sample_defs running_def waveElapsed_def durationElapsed_def)
  have v: "spawnInterval ?e = 2000" "lastSpawnTime (nextLevel lateWorld ?e) = 5002"
    "level (gameState (nextLevel lateWorld ?e)) = 2"
    by (simp_all add: sample_defs nextLevel_def Let_def)
  have c1: "spawnInterval (update lateWorld ?e) = 2000"
    using spawn_interval_kept [of lateWorld ?e sampleWorld 6900] h v by simp
  have c2: "spawnInterval (spawnEnemies sampleWorld 6900 (nextLevel lateWorld ?e)) = 2000"
    using spawn_interval_kept [of lateWorld ?e sampleWorld 6900] v by simp
  have c3: "spawnInterval (spawnEnemies sampleWorld 7002 (nextLevel lateWorld ?e)) = 1800"
    using spawn_interval_kept [of lateWorld ?e sampleWorld 7002] v by simp
  from h c1 c2 c3 show ?thesis by blast
qed

end
